theory Spec2Isabelle
  imports Complex_Main
begin

section \<open>Locally weighted regression (lowess.py)\<close>

text \<open>
  The module works on numpy arrays of floating-point numbers. Here an array is a value of
  \<open>ndarray\<close> with its number of dimensions (0, 1 or 2) kept, so that broadcasting, sorting
  along the last axis and indexing along the first behave as numpy's do. Numbers are
  real numbers: rounding, infinities and NaN are not represented, and an operation that
  would produce a non-finite value in numpy ends the model run with \<open>NonFinite\<close>.
  An exception of the Python code is an \<open>Inl\<close> result.
\<close>

subsection \<open>Errors and arrays\<close>

datatype error = IndexError | TypeError | AxisError | ValueError | LinAlgError | NonFinite

datatype ndarray = Scalar real | Arr1 "real list" | Arr2 "real list list"

definition sum_bind :: "error + 'a \<Rightarrow> ('a \<Rightarrow> error + 'b) \<Rightarrow> error + 'b" where
  "sum_bind m f = (case m of Inl e \<Rightarrow> Inl e | Inr v \<Rightarrow> f v)"

fun traverse :: "('a \<Rightarrow> error + 'b) \<Rightarrow> 'a list \<Rightarrow> error + 'b list" where
  "traverse f [] = Inr []"
| "traverse f (x # xs) =
     sum_bind (f x) (\<lambda>v. sum_bind (traverse f xs) (\<lambda>vs. Inr (v # vs)))"

fun ndim :: "ndarray \<Rightarrow> nat" where
  "ndim (Scalar v) = 0"
| "ndim (Arr1 xs) = 1"
| "ndim (Arr2 m) = 2"

text \<open>The elements of an array as rows, dimensions of size one prepended (as broadcasting
  aligns shapes on the right).\<close>

fun rows_of :: "ndarray \<Rightarrow> real list list" where
  "rows_of (Scalar v) = [[v]]"
| "rows_of (Arr1 xs) = [xs]"
| "rows_of (Arr2 m) = m"

definition ncols :: "'a list list \<Rightarrow> nat" where
  "ncols m = (case m of [] \<Rightarrow> 0 | r # _ \<Rightarrow> length r)"

text \<open>A two-dimensional array is rectangular. An array with no row is given no columns
  either: the model does not hold arrays of shape \<open>(0, M)\<close> with \<open>M > 0\<close>.\<close>

definition rect :: "'a list list \<Rightarrow> bool" where
  "rect m = list_all (\<lambda>r. length r = ncols m) m"

fun of_rows :: "nat \<Rightarrow> real list list \<Rightarrow> ndarray" where
  "of_rows 0 m = Scalar (hd (hd m))"
| "of_rows (Suc 0) m = Arr1 (hd m)"
| "of_rows (Suc (Suc k)) m = Arr2 m"

subsection \<open>The numpy operations the module calls\<close>

text \<open>Broadcasting: two sizes are compatible when they are equal or one of them is 1; the
  axis of size 1 is repeated.\<close>

definition bc_dim :: "nat \<Rightarrow> nat \<Rightarrow> nat option" where
  "bc_dim a b = (if a = b then Some a else if a = 1 then Some b
                 else if b = 1 then Some a else None)"

definition stretch :: "nat \<Rightarrow> 'a list \<Rightarrow> 'a list" where
  "stretch n xs = (if length xs = n then xs else replicate n (hd xs))"

definition bc2 :: "(real \<Rightarrow> real \<Rightarrow> real) \<Rightarrow> real list list \<Rightarrow> real list list
    \<Rightarrow> error + real list list" where
  "bc2 f a b =
     (case bc_dim (length a) (length b) of
        None \<Rightarrow> Inl ValueError
      | Some n \<Rightarrow>
         (case bc_dim (ncols a) (ncols b) of
            None \<Rightarrow> Inl ValueError
          | Some m \<Rightarrow>
              Inr (map2 (\<lambda>ra rb. map2 f (stretch m ra) (stretch m rb))
                     (stretch n a) (stretch n b))))"

definition np_binop :: "(real \<Rightarrow> real \<Rightarrow> real) \<Rightarrow> ndarray \<Rightarrow> ndarray \<Rightarrow> error + ndarray" where
  "np_binop f a b =
     sum_bind (bc2 f (rows_of a) (rows_of b))
       (\<lambda>m. Inr (of_rows (max (ndim a) (ndim b)) m))"

definition np_sub :: "ndarray \<Rightarrow> ndarray \<Rightarrow> error + ndarray" where
  "np_sub = np_binop (\<lambda>u v. u - v)"

definition np_mul :: "ndarray \<Rightarrow> ndarray \<Rightarrow> error + ndarray" where
  "np_mul = np_binop (\<lambda>u v. u * v)"

text \<open>\<open>a / b\<close>: numpy divides by zero with a warning and stores \<open>inf\<close> or \<open>nan\<close>; the model
  stops there.\<close>

definition np_div :: "ndarray \<Rightarrow> ndarray \<Rightarrow> error + ndarray" where
  "np_div a b =
     sum_bind (np_binop (\<lambda>u v. u / v) a b)
       (\<lambda>q. if concat (rows_of q) \<noteq> [] \<and> 0 \<in> set (concat (rows_of b))
             then Inl NonFinite else Inr q)"

definition np_abs :: "ndarray \<Rightarrow> ndarray" where
  "np_abs a = of_rows (ndim a) (map (map abs) (rows_of a))"

definition np_map :: "(real \<Rightarrow> real) \<Rightarrow> ndarray \<Rightarrow> ndarray" where
  "np_map k a = of_rows (ndim a) (map (map k) (rows_of a))"

definition np_sum :: "ndarray \<Rightarrow> real" where
  "np_sum a = sum_list (concat (rows_of a))"

text \<open>\<open>np.linalg.norm(a, axis=1)\<close>: the Euclidean norm of each row of a two-dimensional
  array; an array of fewer dimensions has no axis 1.\<close>

definition norm_axis1 :: "ndarray \<Rightarrow> error + ndarray" where
  "norm_axis1 a =
     (case a of
        Arr2 m \<Rightarrow> Inr (Arr1 (map (\<lambda>r. sqrt (sum_list (map (\<lambda>v. \<bar>v\<bar> ^ 2) r))) m))
      | _ \<Rightarrow> Inl AxisError)"

text \<open>\<open>np.array(a, ndmin=2).T\<close>: dimensions of size one are prepended up to two
  dimensions, then the axes are swapped. A one-dimensional array of length \<open>N\<close> becomes a
  column of shape \<open>(N, 1)\<close>.\<close>

definition column :: "ndarray \<Rightarrow> ndarray" where
  "column a =
     (case a of
        Scalar v \<Rightarrow> Arr2 [[v]]
      | Arr1 xs \<Rightarrow> Arr2 (map (\<lambda>v. [v]) xs)
      | Arr2 m \<Rightarrow> Arr2 (map (\<lambda>j. map (\<lambda>r. r ! j) m) [0..<ncols m]))"

text \<open>\<open>np.sort(a)\<close> sorts along the last axis (\<open>axis=-1\<close>), ascending.\<close>

definition np_sort :: "ndarray \<Rightarrow> error + ndarray" where
  "np_sort a =
     (case a of
        Scalar v \<Rightarrow> Inl AxisError
      | Arr1 xs \<Rightarrow> Inr (Arr1 (sort xs))
      | Arr2 m \<Rightarrow> Inr (Arr2 (map sort m)))"

text \<open>Indexing with one integer selects along the first axis; a negative index counts from
  the end.\<close>

definition py_index :: "'a list \<Rightarrow> int \<Rightarrow> error + 'a" where
  "py_index xs i =
     (if 0 \<le> i \<and> i < int (length xs) then Inr (xs ! nat i)
      else if - int (length xs) \<le> i \<and> i < 0 then Inr (xs ! nat (int (length xs) + i))
      else Inl IndexError)"

definition getitem :: "ndarray \<Rightarrow> int \<Rightarrow> error + ndarray" where
  "getitem a i =
     (case a of
        Scalar v \<Rightarrow> Inl IndexError
      | Arr1 xs \<Rightarrow> sum_bind (py_index xs i) (\<lambda>v. Inr (Scalar v))
      | Arr2 m \<Rightarrow> sum_bind (py_index m i) (\<lambda>r. Inr (Arr1 r)))"

text \<open>\<open>x.shape[0]\<close>, \<open>x.shape[1]\<close> and \<open>len(x)\<close>.\<close>

definition shape0 :: "ndarray \<Rightarrow> error + nat" where
  "shape0 a = (case a of Scalar v \<Rightarrow> Inl IndexError | Arr1 xs \<Rightarrow> Inr (length xs)
               | Arr2 m \<Rightarrow> Inr (length m))"

definition shape1 :: "ndarray \<Rightarrow> error + nat" where
  "shape1 a = (case a of Arr2 m \<Rightarrow> Inr (ncols m) | _ \<Rightarrow> Inl IndexError)"

definition py_len :: "ndarray \<Rightarrow> error + nat" where
  "py_len a = (case a of Scalar v \<Rightarrow> Inl TypeError | Arr1 xs \<Rightarrow> Inr (length xs)
               | Arr2 m \<Rightarrow> Inr (length m))"

text \<open>\<open>np.hstack([np.ones((n, 1)), x])\<close> for a two-dimensional \<open>x\<close> of \<open>n\<close> rows, and the
  column selection \<open>a[:, [i]]\<close>, which keeps two dimensions.\<close>

definition hstack_ones :: "nat \<Rightarrow> ndarray \<Rightarrow> error + ndarray" where
  "hstack_ones n a =
     (case a of
        Arr2 m \<Rightarrow> if length m = n then Inr (Arr2 (map (\<lambda>r. 1 # r) m)) else Inl ValueError
      | _ \<Rightarrow> Inl ValueError)"

definition col_sel :: "ndarray \<Rightarrow> nat \<Rightarrow> error + ndarray" where
  "col_sel a i =
     (case a of
        Arr2 m \<Rightarrow> if i < ncols m then Inr (Arr2 (map (\<lambda>r. [r ! i]) m)) else Inl IndexError
      | _ \<Rightarrow> Inl IndexError)"

subsection \<open>Collaborators: the kernel and the linear solver\<close>

text \<open>Modelled from the spec: the module \<open>kernels\<close> is not part of the source at hand. The
  glossary gives the tricube kernel as \<open>w(u) = (1 - |u|^3)^3\<close> for \<open>|u| < 1\<close>, else 0, and a
  kernel is applied to an array element by element.\<close>

definition tricube :: "real \<Rightarrow> real" where
  "tricube u = (if \<bar>u\<bar> < 1 then (1 - \<bar>u\<bar> ^ 3) ^ 3 else 0)"

text \<open>\<open>scipy.linalg.solve\<close> is a library routine. The functions of the module take the
  solver as an argument; \<open>linalg_solve\<close> is an instance over the reals: elimination with
  a pivot search, \<open>LinAlgError\<close> when no pivot is left (a singular matrix), \<open>ValueError\<close>
  when the matrix is not square or the right-hand side has another length.\<close>

type_synonym solver = "real list list \<Rightarrow> real list \<Rightarrow> error + real list"

definition elim_row :: "real list \<Rightarrow> real list \<Rightarrow> real list" where
  "elim_row p r = map2 (\<lambda>pj rj. rj - (hd r / hd p) * pj) (tl p) (tl r)"

fun gauss :: "nat \<Rightarrow> real list list \<Rightarrow> real list option" where
  "gauss 0 m = Some []"
| "gauss (Suc n) m =
     (case find (\<lambda>r. hd r \<noteq> 0) m of
        None \<Rightarrow> None
      | Some p \<Rightarrow>
         (case gauss n (map (elim_row p) (remove1 p m)) of
            None \<Rightarrow> None
          | Some vs \<Rightarrow>
              Some ((last p - sum_list (map2 (\<lambda>c v. c * v) (butlast (tl p)) vs)) / hd p # vs)))"

definition linalg_solve :: solver where
  "linalg_solve A b =
     (if list_all (\<lambda>r. length r = length A) A \<and> length b = length A
      then (case gauss (length A) (map2 (\<lambda>r v. r @ [v]) A b) of
              None \<Rightarrow> Inl LinAlgError
            | Some vs \<Rightarrow> Inr vs)
      else Inl ValueError)"

subsection \<open>The neighbourhood weighter\<close>

text \<open>\<open>r = int(np.ceil(bandwidth * n))\<close> and \<open>h = np.sort(d)[r]\<close>.\<close>

definition rank :: "real \<Rightarrow> nat \<Rightarrow> int" where
  "rank bandwidth n = \<lceil>bandwidth * real n\<rceil>"

definition radius :: "ndarray \<Rightarrow> int \<Rightarrow> error + ndarray" where
  "radius d r = sum_bind (np_sort d) (\<lambda>s. getitem s r)"

text \<open>\<open>np.linalg.norm(x - x_star, axis=1)\<close>, line 47 of \<open>lowessNd\<close> and line 79 of
  \<open>lowess\<close>.\<close>

definition distances :: "ndarray \<Rightarrow> ndarray \<Rightarrow> error + ndarray" where
  "distances x x_star = sum_bind (np_sub x x_star) norm_axis1"

text \<open>\<open>lowessNd\<close>, lines 45 to 51: the sizes, the distances and the weights.\<close>

definition weighter_Nd :: "(real \<Rightarrow> real) \<Rightarrow> ndarray \<Rightarrow> ndarray \<Rightarrow> real
    \<Rightarrow> error + (nat \<times> nat \<times> ndarray \<times> ndarray)" where
  "weighter_Nd kernel_fn x_star x bandwidth =
     sum_bind (shape0 x) (\<lambda>n.
     sum_bind (shape1 x) (\<lambda>dimx.
     sum_bind (distances x x_star) (\<lambda>dist.
       let d = column dist; r = rank bandwidth n in
       sum_bind (radius d r) (\<lambda>h.
       sum_bind (np_div d h) (\<lambda>u.
         Inr (n, dimx, dist, np_map kernel_fn u))))))"

text \<open>\<open>lowess\<close>, lines 76 to 81. Line 78 computes \<open>np.abs(x - x_star)\<close> and line 79
  overwrites it.\<close>

definition weighter_1d :: "ndarray \<Rightarrow> ndarray \<Rightarrow> real \<Rightarrow> error + ndarray" where
  "weighter_1d x_star x bandwidth =
     sum_bind (py_len x) (\<lambda>n.
       let r = rank bandwidth n in
       sum_bind (np_sub x x_star) (\<lambda>diff0.
         let d0 = np_abs diff0 in
         sum_bind (distances x x_star) (\<lambda>dist.
           let d = column dist in
           sum_bind (radius d r) (\<lambda>h.
           sum_bind (np_div d h) (\<lambda>u.
             Inr (np_map tricube u))))))"

subsection \<open>The weighted normal equations\<close>

text \<open>\<open>lowessNd\<close>, lines 58 to 64: \<open>b[i] = np.sum(y * w * x_ext[:, [i]])\<close> and row \<open>j\<close> of
  \<open>A\<close> holds \<open>np.sum(w * x_ext[:, [i]] * x_ext[:, [j]])\<close> for \<open>i\<close> in \<open>range(dim + 1)\<close>.\<close>

definition rhs_entry :: "ndarray \<Rightarrow> ndarray \<Rightarrow> ndarray \<Rightarrow> nat \<Rightarrow> error + real" where
  "rhs_entry y w x_ext i =
     sum_bind (np_mul y w) (\<lambda>yw.
     sum_bind (col_sel x_ext i) (\<lambda>ci.
     sum_bind (np_mul yw ci) (\<lambda>p. Inr (np_sum p))))"

definition mat_entry :: "ndarray \<Rightarrow> ndarray \<Rightarrow> nat \<Rightarrow> nat \<Rightarrow> error + real" where
  "mat_entry w x_ext i j =
     sum_bind (col_sel x_ext i) (\<lambda>ci.
     sum_bind (np_mul w ci) (\<lambda>wc.
     sum_bind (col_sel x_ext j) (\<lambda>cj.
     sum_bind (np_mul wc cj) (\<lambda>p. Inr (np_sum p)))))"

definition normal_equations_Nd :: "nat \<Rightarrow> nat \<Rightarrow> ndarray \<Rightarrow> ndarray \<Rightarrow> ndarray
    \<Rightarrow> error + (real list list \<times> real list)" where
  "normal_equations_Nd n dimx w x y =
     sum_bind (hstack_ones n x) (\<lambda>x_ext.
     sum_bind (traverse (rhs_entry y w x_ext) [0..<dimx + 1]) (\<lambda>b.
     sum_bind (traverse (\<lambda>j. traverse (\<lambda>i. mat_entry w x_ext i j) [0..<dimx + 1])
                 [0..<dimx + 1]) (\<lambda>A.
       Inr (A, b))))"

text \<open>\<open>lowess\<close>, lines 83 to 85.\<close>

definition sum_mul2 :: "ndarray \<Rightarrow> ndarray \<Rightarrow> error + real" where
  "sum_mul2 a b = sum_bind (np_mul a b) (\<lambda>p. Inr (np_sum p))"

definition sum_mul3 :: "ndarray \<Rightarrow> ndarray \<Rightarrow> ndarray \<Rightarrow> error + real" where
  "sum_mul3 a b c = sum_bind (np_mul a b) (\<lambda>p. sum_mul2 p c)"

definition normal_equations_1d :: "ndarray \<Rightarrow> ndarray \<Rightarrow> ndarray
    \<Rightarrow> error + (real list list \<times> real list)" where
  "normal_equations_1d w x y =
     sum_bind (sum_mul2 w y) (\<lambda>b0.
     sum_bind (sum_mul3 w y x) (\<lambda>b1.
     sum_bind (sum_mul2 w x) (\<lambda>a01.
     sum_bind (sum_mul2 w x) (\<lambda>a10.
     sum_bind (sum_mul3 w x x) (\<lambda>a11.
       Inr ([[np_sum w, a01], [a10, a11]], [b0, b1]))))))"

subsection \<open>The two entry points\<close>

text \<open>\<open>lowessNd\<close>: the solve is inside \<open>try\<close> with a bare \<open>except\<close>, whose branch is
  \<open>beta = np.zeros(n + 1)\<close>. The argument \<open>radial\<close> is only read by commented-out lines.\<close>

definition lowessNd :: "(real \<Rightarrow> real) \<Rightarrow> solver \<Rightarrow> ndarray \<Rightarrow> ndarray \<Rightarrow> ndarray \<Rightarrow> real
    \<Rightarrow> bool \<Rightarrow> error + (ndarray \<times> ndarray)" where
  "lowessNd kernel_fn solve x_star x y bandwidth radial =
     sum_bind (weighter_Nd kernel_fn x_star x bandwidth) (\<lambda>(n, dimx, dist, w).
     sum_bind (normal_equations_Nd n dimx w x y) (\<lambda>(A, b).
       let beta = (case solve A b of Inr v \<Rightarrow> v | Inl e \<Rightarrow> replicate (n + 1) 0)
       in Inr (Arr1 beta, dist)))"

text \<open>\<open>lowess\<close>: the solve is not guarded, and the result is
  \<open>(beta[1], beta[0], w)\<close>.\<close>

definition lowess :: "solver \<Rightarrow> ndarray \<Rightarrow> ndarray \<Rightarrow> ndarray \<Rightarrow> real
    \<Rightarrow> error + (real \<times> real \<times> ndarray)" where
  "lowess solve x_star x y bandwidth =
     sum_bind (weighter_1d x_star x bandwidth) (\<lambda>w.
     sum_bind (normal_equations_1d w x y) (\<lambda>(A, b).
     sum_bind (solve A b) (\<lambda>beta.
     sum_bind (py_index beta 1) (\<lambda>slope.
     sum_bind (py_index beta 0) (\<lambda>intercept.
       Inr (slope, intercept, w))))))"

subsection \<open>Notions used to state the properties\<close>

text \<open>A query point for predictors of dimension \<open>M\<close>: a vector of length \<open>M\<close>, or a
  scalar.\<close>

definition query_ok :: "nat \<Rightarrow> ndarray \<Rightarrow> bool" where
  "query_ok M x_star =
     (case x_star of Scalar s \<Rightarrow> True | Arr1 q \<Rightarrow> length q = M | Arr2 m \<Rightarrow> False)"

text \<open>The Euclidean norm \<open>||p - q||\<close> of the specification, component \<open>j\<close> of a scalar
  query being the scalar.\<close>

definition query_at :: "ndarray \<Rightarrow> nat \<Rightarrow> real" where
  "query_at x_star j = (case x_star of Scalar s \<Rightarrow> s | Arr1 q \<Rightarrow> q ! j | Arr2 m \<Rightarrow> 0)"

definition euclid :: "real list \<Rightarrow> ndarray \<Rightarrow> real" where
  "euclid p x_star = sqrt (\<Sum>j<length p. (p ! j - query_at x_star j) ^ 2)"

text \<open>The design matrix \<open>X\<close> of the specification: a leading column of ones, then the
  predictor columns.\<close>

definition design :: "real list list \<Rightarrow> nat \<Rightarrow> nat \<Rightarrow> real" where
  "design rows i k = (if k = 0 then 1 else rows ! i ! (k - 1))"

text \<open>A vector of \<open>N\<close> numbers held as an array of shape \<open>(N, 1)\<close>, the form in which the
  module holds the distances and the weights.\<close>

definition col :: "real list \<Rightarrow> ndarray" where
  "col vs = Arr2 (map (\<lambda>v. [v]) vs)"

text \<open>The system of the specification: \<open>b[k] = sum_i(weight[i] * response[i] * X[i,k])\<close>
  and \<open>A[k,l] = sum_i(weight[i] * X[i,k] * X[i,l])\<close> for \<open>k\<close>, \<open>l\<close> from 0 to \<open>M\<close>.\<close>

definition spec_b :: "real list \<Rightarrow> real list \<Rightarrow> real list list \<Rightarrow> real list" where
  "spec_b ws ys rows =
     map (\<lambda>k. \<Sum>i<length rows. ws ! i * ys ! i * design rows i k) [0..<ncols rows + 1]"

definition spec_A :: "real list \<Rightarrow> real list list \<Rightarrow> real list list" where
  "spec_A ws rows =
     map (\<lambda>k. map (\<lambda>l. \<Sum>i<length rows. ws ! i * design rows i k * design rows i l)
                 [0..<ncols rows + 1])
       [0..<ncols rows + 1]"

section \<open>Evaluation at concrete inputs\<close>

lemmas eval_defs = sum_bind_def ncols_def bc_dim_def stretch_def bc2_def np_binop_def
  np_sub_def np_mul_def np_div_def np_abs_def np_map_def np_sum_def norm_axis1_def
  column_def np_sort_def py_index_def getitem_def shape0_def shape1_def py_len_def
  hstack_ones_def col_sel_def tricube_def elim_row_def linalg_solve_def rank_def
  radius_def distances_def weighter_Nd_def weighter_1d_def rhs_entry_def mat_entry_def
  normal_equations_Nd_def sum_mul2_def sum_mul3_def normal_equations_1d_def
  lowessNd_def lowess_def col_def upt_rec numeral_eq_Suc

section \<open>Facts about the array operations\<close>

text \<open>Binding, columns of shape \<open>(N, 1)\<close>, and the radius \<open>np.sort(d)[r]\<close> on a column: it
  is the entry number \<open>r\<close> of the unsorted distances.\<close>

lemma sum_bind_Inr [simp]: "sum_bind (Inr v) f = f v"
  by (simp add: sum_bind_def)

lemma sum_bind_Inl [simp]: "sum_bind (Inl e) f = Inl e"
  by (simp add: sum_bind_def)

lemma sum_bind_eq_Inr:
  "sum_bind m f = Inr r \<longleftrightarrow> (\<exists>v. m = Inr v \<and> f v = Inr r)"
  by (cases m) simp_all

lemma traverse_total:
  "(\<And>a. a \<in> set xs \<Longrightarrow> f a = Inr (g a)) \<Longrightarrow> traverse f xs = Inr (map g xs)"
  by (induction xs) simp_all

lemma ncols_single: "ncols (map (\<lambda>v. [v]) vs) = (if vs = [] then 0 else 1)"
  by (cases vs) (simp_all add: ncols_def)

lemma map2_replicate_right:
  "map2 f xs (replicate (length xs) c) = map (\<lambda>a. f a c) xs"
  by (induction xs) simp_all

lemma bc_dim_same [simp]: "bc_dim n n = Some n"
  by (simp add: bc_dim_def)

lemma bc_dim_one [simp]: "bc_dim n (Suc 0) = Some n"
  by (simp add: bc_dim_def)

lemma stretch_same [simp]: "length xs = n \<Longrightarrow> stretch n xs = xs"
  by (simp add: stretch_def)

lemma stretch_one: "stretch n [c] = replicate n c"
  by (cases "n = 1") (simp_all add: stretch_def)

lemma bc2_cols:
  assumes "length us = length vs"
  shows "bc2 f (map (\<lambda>v. [v]) us) (map (\<lambda>v. [v]) vs) = Inr (map (\<lambda>v. [v]) (map2 f us vs))"
proof (cases "us = []")
  case True
  with assms show ?thesis by (simp add: bc2_def ncols_single stretch_def)
next
  case False
  with assms have "vs \<noteq> []" by auto
  have "map2 (\<lambda>ra rb. map2 f (stretch (Suc 0) ra) (stretch (Suc 0) rb))
          (map (\<lambda>v. [v]) us) (map (\<lambda>v. [v]) vs) = map (\<lambda>v. [v]) (map2 f us vs)"
    using assms by (induction us vs rule: list_induct2) (simp_all add: stretch_def)
  with False \<open>vs \<noteq> []\<close> assms show ?thesis
    by (simp add: bc2_def ncols_single)
qed

lemma of_rows_2 [simp]: "of_rows 2 m = Arr2 m"
  by (simp add: numeral_2_eq_2)

lemma np_mul_col:
  "length us = length vs \<Longrightarrow> np_mul (col us) (col vs) = Inr (col (map2 (\<lambda>u v. u * v) us vs))"
  by (simp add: np_mul_def np_binop_def col_def bc2_cols)

lemma np_sum_col: "np_sum (col vs) = sum_list vs"
  by (induction vs) (simp_all add: np_sum_def col_def)

lemma py_index_single:
  "py_index (map (\<lambda>v. [v]) ds) r = sum_bind (py_index ds r) (\<lambda>v. Inr [v])"
proof -
  have "nat r < length ds" if "0 \<le> r" "r < int (length ds)"
    using that by linarith
  moreover have "nat (int (length ds) + r) < length ds" if "- int (length ds) \<le> r" "r < 0"
    using that by linarith
  ultimately show ?thesis
    by (simp add: py_index_def)
qed

lemma radius_column:
  "radius (column (Arr1 ds)) r = sum_bind (py_index ds r) (\<lambda>v. Inr (Arr1 [v]))"
  by (simp add: radius_def column_def np_sort_def getitem_def py_index_single o_def)
    (cases "py_index ds r"; simp)

lemma radius_out_of_range:
  "int (length ds) \<le> r \<Longrightarrow> radius (column (Arr1 ds)) r = Inl IndexError"
  by (simp add: radius_column py_index_def)

lemma radius_in_range:
  "0 \<le> r \<Longrightarrow> r < int (length ds) \<Longrightarrow> radius (column (Arr1 ds)) r = Inr (Arr1 [ds ! nat r])"
  by (simp add: radius_column py_index_def)

text \<open>Predictors of shape \<open>(N, M)\<close> against a query point.\<close>

lemma rect_row: "rect rows \<Longrightarrow> p \<in> set rows \<Longrightarrow> length p = ncols rows"
  by (simp add: rect_def list_all_iff)

lemma map2_nth_upt:
  "length p = length q \<Longrightarrow> map2 f p q = map (\<lambda>j. f (p ! j) (q ! j)) [0..<length p]"
  by (rule nth_equalityI) simp_all

lemma map_nth_upt:
  "map g p = map (\<lambda>j. g (p ! j)) [0..<length p]"
  by (rule nth_equalityI) simp_all

lemma ncols_Cons [simp]: "ncols (r # m) = length r"
  by (simp add: ncols_def)

lemma of_rows_max2 [simp]: "of_rows (max 2 (ndim a)) m = Arr2 m"
  by (cases a) (simp_all add: numeral_2_eq_2)

lemma bc2_rows_query:
  assumes "rows \<noteq> []" "rect rows" "query_ok (ncols rows) x_star"
  shows "bc2 f (rows) (rows_of x_star)
         = Inr (map (\<lambda>p. map (\<lambda>j. f (p ! j) (query_at x_star j)) [0..<length p]) rows)"
proof (cases x_star)
  case (Scalar s)
  have "map2 (\<lambda>ra rb. map2 f (stretch (ncols rows) ra) (stretch (ncols rows) rb))
          rows (replicate (length rows) [s])
        = map (\<lambda>p. map (\<lambda>j. f (p ! j) s) [0..<length p]) rows"
    unfolding map2_replicate_right
  proof (rule map_cong [OF refl])
    fix p assume "p \<in> set rows"
    then have len: "length p = ncols rows" using assms(2) by (rule rect_row [rotated])
    then show "map2 f (stretch (ncols rows) p) (stretch (ncols rows) [s])
               = map (\<lambda>j. f (p ! j) s) [0..<length p]"
      by (simp add: stretch_one map2_replicate_right [of f p s, unfolded len] len [symmetric]
            map2_replicate_right map_nth_upt [of "\<lambda>a. f a s" p])
  qed
  with Scalar assms(1) show ?thesis
    by (simp add: bc2_def stretch_one query_at_def)
next
  case (Arr1 q)
  with assms(3) have lq: "length q = ncols rows" by (simp add: query_ok_def)
  have "map2 (\<lambda>ra rb. map2 f (stretch (ncols rows) ra) (stretch (ncols rows) rb))
          rows (replicate (length rows) q)
        = map (\<lambda>p. map (\<lambda>j. f (p ! j) (q ! j)) [0..<length p]) rows"
    unfolding map2_replicate_right
  proof (rule map_cong [OF refl])
    fix p assume "p \<in> set rows"
    then have len: "length p = ncols rows" using assms(2) by (rule rect_row [rotated])
    with lq show "map2 f (stretch (ncols rows) p) (stretch (ncols rows) q)
               = map (\<lambda>j. f (p ! j) (q ! j)) [0..<length p]"
      by (simp add: map2_nth_upt)
  qed
  with Arr1 assms(1) lq show ?thesis
    by (simp add: bc2_def stretch_one query_at_def)
next
  case (Arr2 m)
  with assms(3) show ?thesis by (simp add: query_ok_def)
qed

lemma np_sub_query:
  assumes "rows \<noteq> []" "rect rows" "query_ok (ncols rows) x_star"
  shows "np_sub (Arr2 rows) x_star
         = Inr (Arr2 (map (\<lambda>p. map (\<lambda>j. p ! j - query_at x_star j) [0..<length p]) rows))"
  by (simp add: np_sub_def np_binop_def bc2_rows_query [OF assms])

lemma distances_query:
  assumes "rows \<noteq> []" "rect rows" "query_ok (ncols rows) x_star"
  shows "distances (Arr2 rows) x_star = Inr (Arr1 (map (\<lambda>p. euclid p x_star) rows))"
  by (simp add: distances_def np_sub_query [OF assms] norm_axis1_def o_def euclid_def
        interv_sum_list_conv_sum_set_nat atLeast0LessThan)

lemma weighter_Nd_rank_high:
  assumes "rows \<noteq> []" "rect rows" "query_ok (ncols rows) x_star"
    and "int (length rows) \<le> rank bandwidth (length rows)"
  shows "weighter_Nd kernel_fn x_star (Arr2 rows) bandwidth = Inl IndexError"
  using assms(4)
  by (simp add: weighter_Nd_def shape0_def shape1_def distances_query [OF assms(1-3)]
        radius_out_of_range)

lemma weighter_1d_rank_high:
  assumes "rows \<noteq> []" "rect rows" "query_ok (ncols rows) x_star"
    and "int (length rows) \<le> rank bandwidth (length rows)"
  shows "weighter_1d x_star (Arr2 rows) bandwidth = Inl IndexError"
  using assms(4)
  by (simp add: weighter_1d_def py_len_def np_sub_query [OF assms(1-3)]
        distances_query [OF assms(1-3)] radius_out_of_range)

text \<open>The sums of the normal equations on columns.\<close>

lemma hstack_ones_rows:
  "hstack_ones (length rows) (Arr2 rows) = Inr (Arr2 (map (\<lambda>r. 1 # r) rows))"
  by (simp add: hstack_ones_def)

lemma ncols_ones: "rows \<noteq> [] \<Longrightarrow> ncols (map (\<lambda>r. (1::real) # r) rows) = Suc (ncols rows)"
  by (cases rows) simp_all

lemma design_column:
  "map (\<lambda>r. (1 # r) ! k) rows = map (\<lambda>i. design rows i k) [0..<length rows]"
  by (rule nth_equalityI) (simp_all add: design_def nth_Cons')

lemma col_sel_ones:
  assumes "rows \<noteq> []" "k \<le> ncols rows"
  shows "col_sel (Arr2 (map (\<lambda>r. 1 # r) rows)) k
         = Inr (col (map (\<lambda>i. design rows i k) [0..<length rows]))"
  using assms by (simp add: col_sel_def ncols_ones col_def o_def design_column [symmetric])

lemma sum_list_map2_upt:
  "length us = n \<Longrightarrow>
   sum_list (map2 (\<lambda>u v. u * v) us (map g [0..<n])) = (\<Sum>i<n. us ! i * g i)"
proof -
  assume len: "length us = n"
  have "map2 (\<lambda>u v. u * v) us (map g [0..<n]) = map (\<lambda>i. us ! i * g i) [0..<n]"
    using len by (intro nth_equalityI) simp_all
  then show ?thesis
    by (simp add: interv_sum_list_conv_sum_set_nat atLeast0LessThan)
qed

lemma rhs_entry_cols:
  assumes "rows \<noteq> []" "length ws = length rows" "length ys = length rows" "k \<le> ncols rows"
  shows "rhs_entry (col ys) (col ws) (Arr2 (map (\<lambda>r. 1 # r) rows)) k
         = Inr (\<Sum>i<length rows. ws ! i * ys ! i * design rows i k)"
proof -
  have "(\<Sum>i<length rows. map2 (\<lambda>u v. u * v) ys ws ! i * design rows i k)
        = (\<Sum>i<length rows. ws ! i * ys ! i * design rows i k)"
    using assms(2,3) by (intro sum.cong) (simp_all add: mult.commute)
  with assms show ?thesis
    by (simp add: rhs_entry_def np_mul_col col_sel_ones np_sum_col sum_list_map2_upt)
qed

lemma mat_entry_cols:
  assumes "rows \<noteq> []" "length ws = length rows" "k \<le> ncols rows" "l \<le> ncols rows"
  shows "mat_entry (col ws) (Arr2 (map (\<lambda>r. 1 # r) rows)) l k
         = Inr (\<Sum>i<length rows. ws ! i * design rows i k * design rows i l)"
proof -
  have "(\<Sum>i<length rows. map2 (\<lambda>u v. u * v) ws (map (\<lambda>i. design rows i l) [0..<length rows]) ! i
            * design rows i k)
        = (\<Sum>i<length rows. ws ! i * design rows i k * design rows i l)"
    using assms(2) by (intro sum.cong) (simp_all add: mult.commute mult.left_commute)
  with assms show ?thesis
    by (simp add: mat_entry_def np_mul_col col_sel_ones np_sum_col sum_list_map2_upt)
qed

lemma matrix_Nd_cols:
  assumes "rows \<noteq> []" "length ws = length rows"
  shows "traverse (\<lambda>j. traverse (\<lambda>i. mat_entry (col ws) (Arr2 (map (\<lambda>r. 1 # r) rows)) i j)
            [0..<ncols rows + 1]) [0..<ncols rows + 1]
         = Inr (spec_A ws rows)"
  unfolding spec_A_def
proof (intro traverse_total)
  fix k l assume "k \<in> set [0..<ncols rows + 1]" "l \<in> set [0..<ncols rows + 1]"
  then have "k \<le> ncols rows" "l \<le> ncols rows" by auto
  then show "mat_entry (col ws) (Arr2 (map (\<lambda>r. 1 # r) rows)) l k
             = Inr (\<Sum>i<length rows. ws ! i * design rows i k * design rows i l)"
    by (rule mat_entry_cols [OF assms])
qed

lemma rhs_Nd_cols:
  assumes "rows \<noteq> []" "length ws = length rows" "length ys = length rows"
  shows "traverse (rhs_entry (col ys) (col ws) (Arr2 (map (\<lambda>r. 1 # r) rows))) [0..<ncols rows + 1]
         = Inr (spec_b ws ys rows)"
  unfolding spec_b_def
proof (intro traverse_total)
  fix k assume "k \<in> set [0..<ncols rows + 1]"
  then have "k \<le> ncols rows" by auto
  then show "rhs_entry (col ys) (col ws) (Arr2 (map (\<lambda>r. 1 # r) rows)) k
             = Inr (\<Sum>i<length rows. ws ! i * ys ! i * design rows i k)"
    by (rule rhs_entry_cols [OF assms])
qed


lemma normal_equations_Nd_cols:
  assumes "rows \<noteq> []" "length ws = length rows" "length ys = length rows"
  shows "normal_equations_Nd (length rows) (ncols rows) (col ws) (Arr2 rows) (col ys)
         = Inr (spec_A ws rows, spec_b ws ys rows)"
  by (simp only: normal_equations_Nd_def hstack_ones_rows sum_bind_Inr rhs_Nd_cols [OF assms]
        matrix_Nd_cols [OF assms(1,2)])

lemma ncols_one_rows:
  assumes "rect rows" "ncols rows = 1"
  shows "Arr2 rows = col (map (\<lambda>i. design rows i 1) [0..<length rows])"
proof -
  have "rows = map (\<lambda>v. [v]) (map (\<lambda>i. design rows i 1) [0..<length rows])"
  proof (rule nth_equalityI)
    fix i assume "i < length rows"
    then have "length (rows ! i) = 1" using assms by (simp add: rect_row)
    then obtain v where "rows ! i = [v]" by (cases "rows ! i") simp_all
    with \<open>i < length rows\<close>
    show "rows ! i = map (\<lambda>v. [v]) (map (\<lambda>i. design rows i 1) [0..<length rows]) ! i"
      by (simp add: design_def)
  qed simp
  then show ?thesis by (simp add: col_def)
qed

lemma sum_mul2_cols:
  "length us = n \<Longrightarrow> sum_mul2 (col us) (col (map g [0..<n])) = Inr (\<Sum>i<n. us ! i * g i)"
  by (simp add: sum_mul2_def np_mul_col np_sum_col sum_list_map2_upt)

lemma sum_mul3_cols:
  assumes "length us = n" "length vs = n"
  shows "sum_mul3 (col us) (col vs) (col (map g [0..<n])) = Inr (\<Sum>i<n. us ! i * vs ! i * g i)"
proof -
  have "(\<Sum>i<n. map2 (\<lambda>u v. u * v) us vs ! i * g i) = (\<Sum>i<n. us ! i * vs ! i * g i)"
    using assms by (intro sum.cong) simp_all
  with assms show ?thesis
    by (simp add: sum_mul3_def sum_mul2_def np_mul_col np_sum_col sum_list_map2_upt)
qed

lemma normal_equations_1d_cols:
  assumes "rows \<noteq> []" "rect rows" "ncols rows = 1"
    and "length ws = length rows" "length ys = length rows"
  shows "normal_equations_1d (col ws) (Arr2 rows) (col ys)
         = Inr (spec_A ws rows, spec_b ws ys rows)"
proof -
  let ?n = "length rows"
  let ?x = "\<lambda>i. design rows i 1"
  have x: "Arr2 rows = col (map ?x [0..<?n])"
    using assms(2,3) by (rule ncols_one_rows)
  have y: "col ys = col (map (\<lambda>i. ys ! i) [0..<?n])"
    by (simp add: assms(5) [symmetric] map_nth)
  have b0: "sum_mul2 (col ws) (col ys) = Inr (\<Sum>i<?n. ws ! i * ys ! i)"
    using assms(4) by (subst y) (rule sum_mul2_cols)
  have b1: "sum_mul3 (col ws) (col ys) (Arr2 rows) = Inr (\<Sum>i<?n. ws ! i * ys ! i * ?x i)"
    using assms(4,5) by (subst x) (rule sum_mul3_cols)
  have a01: "sum_mul2 (col ws) (Arr2 rows) = Inr (\<Sum>i<?n. ws ! i * ?x i)"
    using assms(4) by (subst x) (rule sum_mul2_cols)
  have a11: "sum_mul3 (col ws) (Arr2 rows) (Arr2 rows) = Inr (\<Sum>i<?n. ws ! i * ?x i * ?x i)"
  proof -
    have "sum_mul3 (col ws) (col (map ?x [0..<?n])) (col (map ?x [0..<?n]))
          = Inr (\<Sum>i<?n. ws ! i * map ?x [0..<?n] ! i * ?x i)"
      using assms(4) by (intro sum_mul3_cols) simp_all
    moreover have "(\<Sum>i<?n. ws ! i * map ?x [0..<?n] ! i * ?x i) = (\<Sum>i<?n. ws ! i * ?x i * ?x i)"
      by (intro sum.cong) simp_all
    ultimately show ?thesis by (simp only: x [symmetric])
  qed
  have a00: "np_sum (col ws) = (\<Sum>i<?n. ws ! i)"
    using assms(4) by (simp add: np_sum_col sum_list_sum_nth atLeast0LessThan)
  show ?thesis
    by (simp add: normal_equations_1d_def b0 b1 a01 a11 a00 spec_A_def spec_b_def assms(3)
        upt_rec design_def)
qed

lemma spec_A_symmetric:
  assumes "k \<le> ncols rows" "l \<le> ncols rows"
  shows "spec_A ws rows ! k ! l = spec_A ws rows ! l ! k"
proof -
  have "k < ncols rows + 1" "l < ncols rows + 1" using assms by simp_all
  then show ?thesis
    by (simp add: spec_A_def nth_map [of _ "[0..<ncols rows + 1]"] mult.assoc mult.commute
          mult.left_commute del: upt_Suc)
qed

lemma normal_equations_1d_form:
  assumes "normal_equations_1d w x y = Inr (A, b)"
  shows "\<exists>a00 a01 a11 b0 b1. A = [[a00, a01], [a01, a11]] \<and> b = [b0, b1]"
  using assms
  by (auto simp: normal_equations_1d_def sum_bind_eq_Inr)

text \<open>The solver on a singular 2 by 2 matrix, and the shape of the weights: a column of
  \<open>N\<close> numbers.\<close>

lemma linalg_solve_singular_2x2:
  assumes "a00 * a11 - a01 * a10 = 0"
  shows "linalg_solve [[a00, a01], [a10, a11]] [b0, b1] = Inl LinAlgError"
proof (cases "a00 = 0")
  case True
  with assms have "a01 = 0 \<or> a10 = 0" by simp
  with True show ?thesis
    by (auto simp: linalg_solve_def elim_row_def numeral_2_eq_2)
next
  case False
  from assms have "a00 * a11 = a01 * a10" by simp
  with False have "a11 - a10 / a00 * a01 = 0"
    by (simp add: field_simps)
  with False show ?thesis
    by (simp add: linalg_solve_def elim_row_def numeral_2_eq_2)
qed

lemma weighter_Nd_distances:
  assumes "weighter_Nd kernel_fn x_star x bandwidth = Inr (n, dimx, dvec, w)"
  shows "distances x x_star = Inr dvec \<and> shape0 x = Inr n \<and> shape1 x = Inr dimx"
  using assms by (auto simp: weighter_Nd_def sum_bind_eq_Inr Let_def)

lemma bc2_col_single:
  "bc2 f (map (\<lambda>v. [v]) ds) [[h]] = Inr (map (\<lambda>v. [f v h]) ds)"
proof (cases "ds = []")
  case True
  then show ?thesis by (simp add: bc2_def ncols_def bc_dim_def stretch_def)
next
  case False
  have "map2 (\<lambda>ra rb. map2 f (stretch (Suc 0) ra) (stretch (Suc 0) rb))
          (map (\<lambda>v. [v]) ds) (replicate (length ds) [h]) = map (\<lambda>v. [f v h]) ds"
    by (induction ds) (simp_all add: stretch_def)
  with False show ?thesis
    by (simp add: bc2_def ncols_single stretch_one)
qed

lemma np_div_col_single:
  "np_div (col ds) (Arr1 [h])
   = (if ds \<noteq> [] \<and> h = 0 then Inl NonFinite else Inr (col (map (\<lambda>v. v / h) ds)))"
  by (simp add: np_div_def np_binop_def col_def bc2_col_single o_def)

lemma weighter_Nd_column:
  assumes "rows \<noteq> []" "rect rows" "query_ok (ncols rows) x_star"
    and "weighter_Nd kernel_fn x_star (Arr2 rows) bandwidth = Inr (n, dimx, dvec, w)"
  shows "n = length rows \<and> dimx = ncols rows
         \<and> dvec = Arr1 (map (\<lambda>p. euclid p x_star) rows)
         \<and> (\<exists>ws. w = col ws \<and> length ws = length rows)"
proof -
  let ?ds = "map (\<lambda>p. euclid p x_star) rows"
  have c: "column (Arr1 ?ds) = col ?ds"
    by (simp add: column_def col_def)
  from assms(4) obtain h where
    sizes: "n = length rows" "dimx = ncols rows" "dvec = Arr1 ?ds"
    and h: "radius (column (Arr1 ?ds)) (rank bandwidth (length rows)) = Inr h"
    and u: "sum_bind (np_div (column (Arr1 ?ds)) h) (\<lambda>u. Inr (np_map kernel_fn u)) = Inr w"
    by (auto simp: weighter_Nd_def shape0_def shape1_def distances_query [OF assms(1-3)]
        sum_bind_eq_Inr Let_def)
  from h obtain hv where "h = Arr1 [hv]"
    by (auto simp: radius_column sum_bind_eq_Inr)
  with u have "w = np_map kernel_fn (col (map (\<lambda>v. v / hv) ?ds))"
    unfolding c by (auto simp: np_div_col_single sum_bind_eq_Inr split: if_splits)
  then have "w = col (map (\<lambda>v. kernel_fn (v / hv)) ?ds)"
    by (simp add: np_map_def col_def o_def)
  with sizes show ?thesis
    by auto
qed

section \<open>The radius\<close>

text \<open>
  C1. The specification takes the radius \<open>h\<close> to be the \<open>r\<close>-th smallest distance (counting
  from 0). The code sorts the column \<open>d\<close> of shape \<open>(N, 1)\<close> along its last axis, which
  has one element, so the order of the rows is unchanged and \<open>h\<close> is the distance of
  observation number \<open>r\<close>. For four observations at distances 1, 3, 0, 2 and the
  bandwidth 1/4 the rank is 1, the code's radius is 3 and the second smallest distance
  is 1; the weights returned by \<open>lowess\<close> are those of the radius 3.
\<close>

theorem radius_is_unsorted_entry:
  "rank (1/4) 4 = 1
   \<and> distances (Arr2 [[1], [3], [0], [2]]) (Scalar 0) = Inr (Arr1 [1, 3, 0, 2])
   \<and> radius (column (Arr1 [1, 3, 0, 2])) (rank (1/4) 4) = Inr (Arr1 [3])
   \<and> sort [1, 3, 0, 2 :: real] ! nat (rank (1/4) 4) = 1
   \<and> weighter_1d (Scalar 0) (Arr2 [[1], [3], [0], [2]]) (1/4)
       = Inr (col [tricube (1/3), tricube 1, tricube 0, tricube (2/3)])
   \<and> weighter_Nd tricube (Arr1 [0]) (Arr2 [[1], [3], [0], [2]]) (1/4)
       = Inr (4, 1, Arr1 [1, 3, 0, 2], col [tricube (1/3), tricube 1, tricube 0, tricube (2/3)])"
  by (simp add: eval_defs)

section \<open>The singular fallback of lowessNd\<close>

text \<open>
  C2. Two coincident observations of one predictor (\<open>N = 2\<close>, \<open>M = 1\<close>) at distance 1 from
  the query, bandwidth 1/2: all weights are \<open>tricube 1 = 0\<close>, the matrix is zero, the
  solver raises, and \<open>lowessNd\<close> returns \<open>np.zeros(n + 1)\<close>, three zeros, where
  \<open>M + 1 = 2\<close>.
\<close>

theorem lowessNd_fallback_length:
  "shape1 (Arr2 [[0], [0]]) = Inr 1
   \<and> normal_equations_Nd 2 1 (col [0, 0]) (Arr2 [[0], [0]]) (col [1, 2])
       = Inr ([[0, 0], [0, 0]], [0, 0])
   \<and> linalg_solve [[0, 0], [0, 0]] [0, 0] = Inl LinAlgError
   \<and> lowessNd tricube linalg_solve (Arr1 [1]) (Arr2 [[0], [0]]) (col [1, 2]) (1/2) False
       = Inr (Arr1 [0, 0, 0], Arr1 [1, 1])"
  by (simp add: eval_defs)

section \<open>The radial flag\<close>

text \<open>
  C9. The result of \<open>lowessNd\<close> does not depend on the argument \<open>radial\<close>.
\<close>

theorem lowessNd_radial_ignored:
  "lowessNd kernel_fn solve x_star x y bandwidth True
   = lowessNd kernel_fn solve x_star x y bandwidth False"
  by (simp add: lowessNd_def)

section \<open>The distances\<close>



section \<open>A rank past the end\<close>



section \<open>The entries of the normal equations\<close>




section \<open>Symmetry of the matrix\<close>



section \<open>Failure of the solve in lowess\<close>

text \<open>
  C3. When the weights and the 2 by 2 system of \<open>lowess\<close> have been built and the solver
  raises on that system, \<open>lowess\<close> ends with the solver's error; no zero coefficients are
  returned. In particular, when the matrix is singular (its determinant is 0),
  \<open>lowess\<close> with \<open>linalg_solve\<close> ends with \<open>LinAlgError\<close>.
\<close>

theorem lowess_propagates_solver_failure:
  assumes "weighter_1d x_star x bandwidth = Inr w"
    and "normal_equations_1d w x y = Inr (A, b)"
  shows "(solve A b = Inl e \<longrightarrow> lowess solve x_star x y bandwidth = Inl e)
         \<and> (A ! 0 ! 0 * A ! 1 ! 1 - A ! 0 ! 1 * A ! 1 ! 0 = 0 \<longrightarrow>
              lowess linalg_solve x_star x y bandwidth = Inl LinAlgError)"
proof (intro conjI impI)
  assume "solve A b = Inl e"
  with assms show "lowess solve x_star x y bandwidth = Inl e"
    by (simp add: lowess_def)
next
  assume det: "A ! 0 ! 0 * A ! 1 ! 1 - A ! 0 ! 1 * A ! 1 ! 0 = 0"
  from assms(2) obtain a00 a01 a11 b0 b1
    where form: "A = [[a00, a01], [a01, a11]]" "b = [b0, b1]"
    by (auto dest: normal_equations_1d_form)
  with det have "linalg_solve A b = Inl LinAlgError"
    by (simp add: linalg_solve_singular_2x2)
  with assms show "lowess linalg_solve x_star x y bandwidth = Inl LinAlgError"
    by (simp add: lowess_def)
qed

theorem lowess_propagates_solver_failure_witness:
  "weighter_1d (Scalar 0) (Arr2 [[1], [1], [2], [3]]) (1/2)
     = Inr (col [343/512, 343/512, 0, 0])
   \<and> normal_equations_1d (col [343/512, 343/512, 0, 0]) (Arr2 [[1], [1], [2], [3]])
        (col [1, 2, 3, 4])
     = Inr ([[343/256, 343/256], [343/256, 343/256]], [1029/512, 1029/512])
   \<and> linalg_solve [[343/256, 343/256], [343/256, 343/256]] [1029/512, 1029/512]
     = Inl LinAlgError
   \<and> lowess linalg_solve (Scalar 0) (Arr2 [[1], [1], [2], [3]]) (col [1, 2, 3, 4]) (1/2)
     = Inl LinAlgError"
proof -
  have w: "weighter_1d (Scalar 0) (Arr2 [[1], [1], [2], [3]]) (1/2)
     = Inr (col [343/512, 343/512, 0, 0])"
    by (simp add: eval_defs power3_eq_cube)
  have s: "normal_equations_1d (col [343/512, 343/512, 0, 0]) (Arr2 [[1], [1], [2], [3]])
        (col [1, 2, 3, 4])
     = Inr ([[343/256, 343/256], [343/256, 343/256]], [1029/512, 1029/512])"
    by (simp add: eval_defs)
  have f: "linalg_solve [[343/256, 343/256], [343/256, 343/256]] [1029/512, 1029/512]
     = Inl LinAlgError"
    by (simp add: eval_defs)
  from lowess_propagates_solver_failure [OF w s, of linalg_solve LinAlgError] w s f
  show ?thesis by simp
qed

text \<open>A flat array of predictors does not reach the solve: line 79 asks for the norm
  along axis 1.\<close>

lemma lowess_flat_predictors_raise:
  "lowess solve (Scalar 2) (Arr1 [0, 1, 2, 3, 4]) (Arr1 [0, 1, 2, 3, 4]) (4/5) = Inl AxisError"
  by (simp add: eval_defs)

section \<open>What the entry points return\<close>

text \<open>
  C7. When the solve succeeds with \<open>beta\<close> of two entries, \<open>lowess\<close> returns
  \<open>(beta[1], beta[0], w)\<close>: the slope, then the intercept, then the weights. When the
  solve succeeds, \<open>lowessNd\<close> returns \<open>(beta, dist)\<close>, where \<open>dist\<close> is the vector of
  distances.
\<close>

theorem return_values:
  "(weighter_1d x_star x bandwidth = Inr w \<and> normal_equations_1d w x y = Inr (A, b)
      \<and> solve A b = Inr beta \<and> length beta = 2
     \<longrightarrow> lowess solve x_star x y bandwidth = Inr (beta ! 1, beta ! 0, w))
   \<and> (weighter_Nd kernel_fn x_star' x' bandwidth' = Inr (n, dimx, dvec, w')
      \<and> normal_equations_Nd n dimx w' x' y' = Inr (A', b') \<and> solve' A' b' = Inr beta'
     \<longrightarrow> lowessNd kernel_fn solve' x_star' x' y' bandwidth' radial = Inr (Arr1 beta', dvec)
         \<and> distances x' x_star' = Inr dvec)"
  by (auto simp: lowess_def lowessNd_def py_index_def dest: weighter_Nd_distances)

theorem return_values_witness:
  "weighter_1d (Scalar 0) (Arr2 [[0], [1], [2], [3]]) (1/2) = Inr (col [1, 343/512, 0, 0])
   \<and> normal_equations_1d (col [1, 343/512, 0, 0]) (Arr2 [[0], [1], [2], [3]]) (col [1, 3, 5, 7])
       = Inr ([[855/512, 343/512], [343/512, 343/512]], [1541/512, 1029/512])
   \<and> linalg_solve [[855/512, 343/512], [343/512, 343/512]] [1541/512, 1029/512] = Inr [1, 2]
   \<and> length [1, 2 :: real] = 2
   \<and> lowess linalg_solve (Scalar 0) (Arr2 [[0], [1], [2], [3]]) (col [1, 3, 5, 7]) (1/2)
       = Inr (2, 1, col [1, 343/512, 0, 0])
   \<and> weighter_Nd tricube (Arr1 [0]) (Arr2 [[0], [1], [2], [3]]) (1/2)
       = Inr (4, 1, Arr1 [0, 1, 2, 3], col [1, 343/512, 0, 0])
   \<and> normal_equations_Nd 4 1 (col [1, 343/512, 0, 0]) (Arr2 [[0], [1], [2], [3]])
        (col [1, 3, 5, 7])
       = Inr ([[855/512, 343/512], [343/512, 343/512]], [1541/512, 1029/512])
   \<and> lowessNd tricube linalg_solve (Arr1 [0]) (Arr2 [[0], [1], [2], [3]]) (col [1, 3, 5, 7])
        (1/2) False
       = Inr (Arr1 [1, 2], Arr1 [0, 1, 2, 3])
   \<and> distances (Arr2 [[0], [1], [2], [3]]) (Arr1 [0]) = Inr (Arr1 [0, 1, 2, 3])"
proof -
  have w1: "weighter_1d (Scalar 0) (Arr2 [[0], [1], [2], [3]]) (1/2)
      = Inr (col [1, 343/512, 0, 0])"
    by (simp add: eval_defs power3_eq_cube)
  have s1: "normal_equations_1d (col [1, 343/512, 0, 0]) (Arr2 [[0], [1], [2], [3]])
       (col [1, 3, 5, 7])
      = Inr ([[855/512, 343/512], [343/512, 343/512]], [1541/512, 1029/512])"
    by (simp add: eval_defs)
  have sv: "linalg_solve [[855/512, 343/512], [343/512, 343/512]] [1541/512, 1029/512]
      = Inr [1, 2]"
    by (simp add: eval_defs)
  have wN: "weighter_Nd tricube (Arr1 [0]) (Arr2 [[0], [1], [2], [3]]) (1/2)
      = Inr (4, 1, Arr1 [0, 1, 2, 3], col [1, 343/512, 0, 0])"
    by (simp add: eval_defs power3_eq_cube)
  have sN: "normal_equations_Nd 4 1 (col [1, 343/512, 0, 0]) (Arr2 [[0], [1], [2], [3]])
       (col [1, 3, 5, 7])
      = Inr ([[855/512, 343/512], [343/512, 343/512]], [1541/512, 1029/512])"
    by (simp add: eval_defs)
  from return_values [of "Scalar 0" "Arr2 [[0], [1], [2], [3]]" "1/2" "col [1, 343/512, 0, 0]"
      "col [1, 3, 5, 7]" "[[855/512, 343/512], [343/512, 343/512]]" "[1541/512, 1029/512]"
      linalg_solve "[1, 2]" tricube "Arr1 [0]" "Arr2 [[0], [1], [2], [3]]" "1/2" 4 1
      "Arr1 [0, 1, 2, 3]" "col [1, 343/512, 0, 0]" "col [1, 3, 5, 7]"
      "[[855/512, 343/512], [343/512, 343/512]]" "[1541/512, 1029/512]" linalg_solve "[1, 2]"
      False]
    w1 s1 sv wN sN
  show ?thesis by simp
qed

section \<open>Failure of the solve in lowessNd\<close>

text \<open>
  C10. When the weights and the system of \<open>lowessNd\<close> have been built and the solver
  raises an error of any kind on that system, \<open>lowessNd\<close> does not raise: it returns
  \<open>n + 1\<close> zeros and the distances.
\<close>

theorem lowessNd_catches_solver_failure:
  assumes "weighter_Nd kernel_fn x_star x bandwidth = Inr (n, dimx, dvec, w)"
    and "normal_equations_Nd n dimx w x y = Inr (A, b)"
    and "solve A b = Inl e"
  shows "lowessNd kernel_fn solve x_star x y bandwidth radial
         = Inr (Arr1 (replicate (n + 1) 0), dvec)"
  using assms by (simp add: lowessNd_def)

theorem lowessNd_catches_solver_failure_witness:
  "weighter_Nd tricube (Arr1 [0]) (Arr2 [[0], [1], [2], [3]]) (1/2)
       = Inr (4, 1, Arr1 [0, 1, 2, 3], col [1, 343/512, 0, 0])
   \<and> normal_equations_Nd 4 1 (col [1, 343/512, 0, 0]) (Arr2 [[0], [1], [2], [3]])
        (col [1, 3, 5, 7])
       = Inr ([[855/512, 343/512], [343/512, 343/512]], [1541/512, 1029/512])
   \<and> (\<lambda>A b. Inl ValueError :: error + real list)
         [[855/512, 343/512], [343/512, 343/512]] [1541/512, 1029/512] = Inl ValueError
   \<and> lowessNd tricube (\<lambda>A b. Inl ValueError) (Arr1 [0]) (Arr2 [[0], [1], [2], [3]])
        (col [1, 3, 5, 7]) (1/2) False
       = Inr (Arr1 [0, 0, 0, 0, 0], Arr1 [0, 1, 2, 3])"
proof -
  have wN: "weighter_Nd tricube (Arr1 [0]) (Arr2 [[0], [1], [2], [3]]) (1/2)
      = Inr (4, 1, Arr1 [0, 1, 2, 3], col [1, 343/512, 0, 0])"
    by (simp add: eval_defs power3_eq_cube)
  have sN: "normal_equations_Nd 4 1 (col [1, 343/512, 0, 0]) (Arr2 [[0], [1], [2], [3]])
       (col [1, 3, 5, 7])
      = Inr ([[855/512, 343/512], [343/512, 343/512]], [1541/512, 1029/512])"
    by (simp add: eval_defs)
  from lowessNd_catches_solver_failure [OF wN sN, of "\<lambda>A b. Inl ValueError" ValueError False]
    wN sN
  show ?thesis by (simp add: numeral_eq_Suc)
qed

end
